theory Spec2Isabelle
  imports Complex_Main
begin

section \<open>Python values of the notebook\<close>

text \<open>
  The notebook \<^verbatim>\<open>Notebooks/CNN_Model.ipynb\<close> is a linear script over pandas frames and
  numpy arrays.  Exceptions are values of \<open>py_error\<close>; a function that can raise returns
  \<open>py_error + 'a\<close> with \<open>Inl\<close> for the exception.
\<close>

datatype py_error =
    NameError string
  | KeyError string
  | IndexError
  | ZeroDivisionError
  | ValueError
  | ProviderError

text \<open>
  A float cell of a pandas column: a finite number, an infinity, or the missing marker
  NaN.  Finite arithmetic is exact (rounding and overflow are not modelled) and zero is
  unsigned, so a positive number divided by zero is \<open>PInf\<close> whatever the sign bit of the
  zero is in IEEE arithmetic.
\<close>

datatype fval = Fin real | PInf | NInf | NaN

fun fneg :: "fval \<Rightarrow> fval" where
  "fneg (Fin a) = Fin (- a)"
| "fneg PInf = NInf"
| "fneg NInf = PInf"
| "fneg NaN = NaN"

fun fadd :: "fval \<Rightarrow> fval \<Rightarrow> fval" where
  "fadd NaN _ = NaN"
| "fadd _ NaN = NaN"
| "fadd (Fin a) (Fin b) = Fin (a + b)"
| "fadd PInf NInf = NaN"
| "fadd NInf PInf = NaN"
| "fadd PInf _ = PInf"
| "fadd NInf _ = NInf"
| "fadd (Fin a) PInf = PInf"
| "fadd (Fin a) NInf = NInf"

definition fsub :: "fval \<Rightarrow> fval \<Rightarrow> fval" where
  "fsub a b = fadd a (fneg b)"

fun fmul :: "fval \<Rightarrow> fval \<Rightarrow> fval" where
  "fmul NaN _ = NaN"
| "fmul _ NaN = NaN"
| "fmul (Fin a) (Fin b) = Fin (a * b)"
| "fmul (Fin a) PInf = (if a = 0 then NaN else if 0 < a then PInf else NInf)"
| "fmul (Fin a) NInf = (if a = 0 then NaN else if 0 < a then NInf else PInf)"
| "fmul PInf (Fin b) = (if b = 0 then NaN else if 0 < b then PInf else NInf)"
| "fmul NInf (Fin b) = (if b = 0 then NaN else if 0 < b then NInf else PInf)"
| "fmul PInf PInf = PInf"
| "fmul NInf NInf = PInf"
| "fmul PInf NInf = NInf"
| "fmul NInf PInf = NInf"

text \<open>
  numpy's float division never raises: \<open>x / 0\<close> is an infinity for \<open>x \<noteq> 0\<close> and
  NaN for \<open>x = 0\<close>.
\<close>

fun fdiv :: "fval \<Rightarrow> fval \<Rightarrow> fval" where
  "fdiv NaN _ = NaN"
| "fdiv _ NaN = NaN"
| "fdiv (Fin a) (Fin b) =
     (if b = 0 then (if a = 0 then NaN else if 0 < a then PInf else NInf)
      else Fin (a / b))"
| "fdiv (Fin a) PInf = Fin 0"
| "fdiv (Fin a) NInf = Fin 0"
| "fdiv PInf (Fin b) = (if 0 \<le> b then PInf else NInf)"
| "fdiv NInf (Fin b) = (if 0 \<le> b then NInf else PInf)"
| "fdiv PInf _ = NaN"
| "fdiv NInf _ = NaN"

definition isnan :: "fval \<Rightarrow> bool" where
  "isnan v = (v = NaN)"

text \<open>
  A pandas DataFrame, column-major: the ordered list of its named columns (the date index
  plays no part in any computation of the notebook).  Every column of a frame has the
  same length.
\<close>

type_synonym 'a dataframe = "(string \<times> 'a list) list"

definition columns :: "'a dataframe \<Rightarrow> string list" where
  "columns df = map fst df"

definition num_rows :: "'a dataframe \<Rightarrow> nat" where
  "num_rows df = (case df of [] \<Rightarrow> 0 | c # _ \<Rightarrow> length (snd c))"

text \<open>\<^verbatim>\<open>xs[k]\<close> for \<open>k \<ge> 0\<close>, and \<^verbatim>\<open>series.iloc[p]\<close> for an integer position, which counts
  from the end when negative; both raise IndexError out of range.\<close>

definition py_index :: "'a list \<Rightarrow> nat \<Rightarrow> py_error + 'a" where
  "py_index xs k = (if k < length xs then Inr (xs ! k) else Inl IndexError)"

definition iloc :: "'a list \<Rightarrow> int \<Rightarrow> py_error + 'a" where
  "iloc xs p =
     (let n = int (length xs); q = (if p < 0 then n + p else p)
      in if 0 \<le> q \<and> q < n then Inr (xs ! nat q) else Inl IndexError)"

text \<open>\<^verbatim>\<open>xs[a:b]\<close> for \<open>0 \<le> a\<close> and \<open>0 \<le> b\<close>.\<close>

definition py_slice :: "'a list \<Rightarrow> nat \<Rightarrow> nat \<Rightarrow> 'a list" where
  "py_slice xs a b = take (b - a) (drop a xs)"

section \<open>Window Formatter: \<^verbatim>\<open>format_dataset\<close>\<close>

text \<open>
  \<^verbatim>\<open>
  dataX, dataY = [], []
  for i in range(CNN_input_vector_size, len(x_values)):
      dataX.append(x_values[(i - CNN_input_vector_size):i])
      dataY.append(y_values[i])
  return np.array(dataX), np.array(dataY)
  \<close>
  The window length is a natural number (every call of the notebook passes 10).
\<close>

fun format_dataset_loop ::
  "'a list \<Rightarrow> 'b list \<Rightarrow> nat \<Rightarrow> nat list \<Rightarrow> 'a list list \<Rightarrow> 'b list
    \<Rightarrow> py_error + ('a list list \<times> 'b list)" where
  "format_dataset_loop x_values y_values L [] dataX dataY = Inr (dataX, dataY)"
| "format_dataset_loop x_values y_values L (i # rest) dataX dataY =
     (case py_index y_values i of
        Inl e \<Rightarrow> Inl e
      | Inr label \<Rightarrow>
          format_dataset_loop x_values y_values L rest
            (dataX @ [py_slice x_values (i - L) i]) (dataY @ [label]))"

definition format_dataset ::
  "'a list \<Rightarrow> 'b list \<Rightarrow> nat \<Rightarrow> py_error + ('a list list \<times> 'b list)" where
  "format_dataset x_values y_values CNN_input_vector_size =
     format_dataset_loop x_values y_values CNN_input_vector_size
       [CNN_input_vector_size ..< length x_values] [] []"

section \<open>Evaluator: the prediction loop\<close>

text \<open>
  The body of the loop over \<open>(stock, subset)\<close>, after the model has predicted.
  \<open>close\<close> is the Close column of the retained non-stationary frame, \<open>pred_rescaled\<close> and
  \<open>y_test_rescaled\<close> are the inverse-scaled predictions and held-out targets (one number per
  sample).
  \<^verbatim>\<open>
  same_direction = 0
  for k in range(len(pred_rescaled)):
      if np.sign(pred_rescaled[k]) == np.sign(y_test_rescaled[k]):
          same_direction += 1
      pred_..._single_model.append(
          nonstat['Close'].iloc[len(nonstat['Close']) - len(pred_rescaled) + k] + pred_rescaled[k])
      y_test_..._single_model.append(
          nonstat['Close'].iloc[len(nonstat['Close']) - len(pred_rescaled) + k] + y_test_rescaled[k])
  y_test_direction_accuracy.append(same_direction / len(pred_rescaled))
  \<close>
\<close>

record evaluation =
  y_test_direction_accuracy :: real
  pred_rescaled_inversed_difference :: "real list"
  y_test_rescaled_inversed_difference :: "real list"

fun evaluation_loop ::
  "real list \<Rightarrow> real list \<Rightarrow> real list \<Rightarrow> nat list \<Rightarrow> nat \<times> real list \<times> real list
    \<Rightarrow> py_error + (nat \<times> real list \<times> real list)" where
  "evaluation_loop close pred_rescaled y_test_rescaled [] st = Inr st"
| "evaluation_loop close pred_rescaled y_test_rescaled (k # rest) (same_direction, ps, ys) =
     (case py_index y_test_rescaled k of
        Inl e \<Rightarrow> Inl e
      | Inr y \<Rightarrow>
         (case iloc close (int (length close) - int (length pred_rescaled) + int k) of
            Inl e \<Rightarrow> Inl e
          | Inr level \<Rightarrow>
              evaluation_loop close pred_rescaled y_test_rescaled rest
                (if sgn (pred_rescaled ! k) = sgn y then same_direction + 1 else same_direction,
                 ps @ [level + pred_rescaled ! k],
                 ys @ [level + y])))"

definition evaluate :: "real list \<Rightarrow> real list \<Rightarrow> real list \<Rightarrow> py_error + evaluation" where
  "evaluate close pred_rescaled y_test_rescaled =
     (case evaluation_loop close pred_rescaled y_test_rescaled
             [0 ..< length pred_rescaled] (0, [], []) of
        Inl e \<Rightarrow> Inl e
      | Inr (same_direction, ps, ys) \<Rightarrow>
          if length pred_rescaled = 0 then Inl ZeroDivisionError
          else Inr \<lparr> y_test_direction_accuracy =
                       real same_direction / real (length pred_rescaled),
                     pred_rescaled_inversed_difference = ps,
                     y_test_rescaled_inversed_difference = ys \<rparr>)"

text \<open>The fractions the specification compares the accuracy with.\<close>

definition sign_matches :: "real list \<Rightarrow> real list \<Rightarrow> nat" where
  "sign_matches pred y = length (filter (\<lambda>k. sgn (pred ! k) = sgn (y ! k)) [0 ..< length pred])"

definition fraction_non_negative :: "real list \<Rightarrow> real" where
  "fraction_non_negative y = real (length (filter (\<lambda>v. 0 \<le> v) y)) / real (length y)"

definition fraction_zero :: "real list \<Rightarrow> real" where
  "fraction_zero y = real (length (filter (\<lambda>v. v = 0) y)) / real (length y)"

text \<open>Running a fallible function over a list: the first exception ends the loop.\<close>

fun traverse :: "('a \<Rightarrow> py_error + 'b) \<Rightarrow> 'a list \<Rightarrow> py_error + 'b list" where
  "traverse f [] = Inr []"
| "traverse f (x # xs) =
     (case f x of
        Inl e \<Rightarrow> Inl e
      | Inr y \<Rightarrow> (case traverse f xs of Inl e \<Rightarrow> Inl e | Inr ys \<Rightarrow> Inr (y # ys)))"

section \<open>Stationarity Transform: \<^verbatim>\<open>make_stationary\<close>\<close>

text \<open>
  \<^verbatim>\<open>hist_data_all_stocks[i] = hist_data_all_stocks[i].diff().dropna()\<close>
  \<open>diff\<close> leaves the first row undefined; \<open>dropna\<close> keeps the rows in which no column is
  NaN.
\<close>

definition diff :: "fval list \<Rightarrow> fval list" where
  "diff xs = (case xs of [] \<Rightarrow> [] | _ # rest \<Rightarrow> NaN # map2 fsub rest xs)"

definition dropna :: "fval dataframe \<Rightarrow> fval dataframe" where
  "dropna df =
     (let keep = filter (\<lambda>t. list_all (\<lambda>c. \<not> isnan (snd c ! t)) df) [0 ..< num_rows df]
      in map (\<lambda>c. (fst c, map ((!) (snd c)) keep)) df)"

definition make_stationary_frame :: "fval dataframe \<Rightarrow> fval dataframe" where
  "make_stationary_frame df = dropna (map (\<lambda>c. (fst c, diff (snd c))) df)"

definition make_stationary :: "fval dataframe list \<Rightarrow> fval dataframe list" where
  "make_stationary hist_data_all_stocks = map make_stationary_frame hist_data_all_stocks"

text \<open>The running sum of the specification's round-trip law: \<open>[d0, d0 + d1, ...]\<close>.\<close>

definition running_sum :: "real list \<Rightarrow> real list" where
  "running_sum ds = map (\<lambda>k. sum_list (take (Suc k) ds)) [0 ..< length ds]"

section \<open>Feature Subset Enumerator\<close>

text \<open>
  \<^verbatim>\<open>itertools.combinations(iterable, r)\<close>: the \<open>r\<close>-element subsequences, in lexicographic
  order of their positions.
\<close>

fun combinations :: "'a list \<Rightarrow> nat \<Rightarrow> 'a list list" where
  "combinations xs 0 = [[]]"
| "combinations [] (Suc r) = []"
| "combinations (x # xs) (Suc r) = map ((#) x) (combinations xs r) @ combinations xs (Suc r)"

text \<open>
  \<^verbatim>\<open>
  n_features = frame.columns[0:len(frame.columns) - 1].tolist()
  for i in range(len(frame.columns) + 1):
      for subset in itertools.combinations(n_features, i):
          if(len(subset) != 0):
              feature_combinations.append(list(subset))
              feature_combinations[-1].append("Close")
  \<close>
  \<open>cols\<close> is the column list of the first stationary frame.
\<close>

definition feature_combinations :: "string list \<Rightarrow> string list list" where
  "feature_combinations cols =
     (let n_features = py_slice cols 0 (length cols - 1)
      in concat (map (\<lambda>i. map (\<lambda>subset. subset @ [''Close''])
                             (filter (\<lambda>subset. length subset \<noteq> 0) (combinations n_features i)))
                   [0 ..< length cols + 1]))"

section \<open>Scaling Stage: \<^verbatim>\<open>scale_values\<close>\<close>

text \<open>
  A numpy 2-D array is the list of its rows.  sklearn's \<open>MinMaxScaler\<close> with the default
  feature range \<open>(0, 1)\<close> keeps per column \<open>data_min_\<close> and \<open>data_max_\<close>, from which
  \<open>scale_ = 1 / handle_zeros(data_max_ - data_min_)\<close> and \<open>min_ = 0 - data_min_ * scale_\<close>;
  \<open>transform\<close> is \<open>X * scale_ + min_\<close>, \<open>inverse_transform\<close> is \<open>(X - min_) / scale_\<close>.
  Arithmetic is exact.
\<close>

type_synonym ndarray = "real list list"

definition to_numpy :: "real dataframe \<Rightarrow> ndarray" where
  "to_numpy df = map (\<lambda>t. map (\<lambda>c. snd c ! t) df) [0 ..< num_rows df]"

record min_max_scaler =
  data_min :: "real list"
  data_max :: "real list"

definition handle_zeros_in_scale :: "real \<Rightarrow> real" where
  "handle_zeros_in_scale r = (if r = 0 then 1 else r)"

definition scale_of :: "min_max_scaler \<Rightarrow> real list" where
  "scale_of s = map2 (\<lambda>lo hi. 1 / handle_zeros_in_scale (hi - lo)) (data_min s) (data_max s)"

definition min_of :: "min_max_scaler \<Rightarrow> real list" where
  "min_of s = map2 (\<lambda>lo sc. 0 - lo * sc) (data_min s) (scale_of s)"

definition fit :: "ndarray \<Rightarrow> py_error + min_max_scaler" where
  "fit X =
     (if X = [] then Inl ValueError
      else if hd X = [] then Inl ValueError
      else Inr \<lparr> data_min = foldl (map2 min) (hd X) (tl X),
                 data_max = foldl (map2 max) (hd X) (tl X) \<rparr>)"

definition transform :: "min_max_scaler \<Rightarrow> ndarray \<Rightarrow> py_error + ndarray" where
  "transform s X =
     (if list_all (\<lambda>row. length row = length (data_min s)) X
      then Inr (map (\<lambda>row. map2 (+) (map2 (*) row (scale_of s)) (min_of s)) X)
      else Inl ValueError)"

definition inverse_transform :: "min_max_scaler \<Rightarrow> ndarray \<Rightarrow> py_error + ndarray" where
  "inverse_transform s X =
     (if list_all (\<lambda>row. length row = length (data_min s)) X
      then Inr (map (\<lambda>row. map2 (/) (map2 (-) row (min_of s)) (scale_of s)) X)
      else Inl ValueError)"

definition fit_transform :: "ndarray \<Rightarrow> py_error + (min_max_scaler \<times> ndarray)" where
  "fit_transform X =
     (case fit X of
        Inl e \<Rightarrow> Inl e
      | Inr s \<Rightarrow> (case transform s X of Inl e \<Rightarrow> Inl e | Inr Z \<Rightarrow> Inr (s, Z)))"

text \<open>
  The body of the inner loop of \<open>scale_values\<close>, for the frame of one \<open>(stock, subset)\<close>:
  \<^verbatim>\<open>
  features = frame.loc[:, ~frame.columns.isin(['Close'])]
  feature_scaler = MinMaxScaler()
  scaled_features_single_stock.append(feature_scaler.fit_transform(features))
  target = frame.loc[:, frame.columns.isin(['Close'])]
  target_scaler = MinMaxScaler()
  scaled_target_single_stock.append(target_scaler.fit_transform(target))
  \<close>
\<close>

record scaled =
  scaled_features :: ndarray
  scaled_target :: ndarray
  feature_scaler :: min_max_scaler
  target_scaler :: min_max_scaler

definition scale_frame :: "real dataframe \<Rightarrow> py_error + scaled" where
  "scale_frame frame =
     (case fit_transform (to_numpy (filter (\<lambda>c. fst c \<noteq> ''Close'') frame)) of
        Inl e \<Rightarrow> Inl e
      | Inr (fs, F) \<Rightarrow>
         (case fit_transform (to_numpy (filter (\<lambda>c. fst c = ''Close'') frame)) of
            Inl e \<Rightarrow> Inl e
          | Inr (ts, T) \<Rightarrow>
              Inr \<lparr> scaled_features = F, scaled_target = T,
                    feature_scaler = fs, target_scaler = ts \<rparr>))"

definition scale_values ::
  "real dataframe list list
    \<Rightarrow> py_error + (ndarray list list \<times> ndarray list list
                    \<times> min_max_scaler list list \<times> min_max_scaler list list)" where
  "scale_values hist_data_all_stocks_feature_combinations =
     (case traverse (traverse scale_frame) hist_data_all_stocks_feature_combinations of
        Inl e \<Rightarrow> Inl e
      | Inr r \<Rightarrow>
          Inr (map (map scaled_features) r, map (map scaled_target) r,
               map (map feature_scaler) r, map (map target_scaler) r))"

section \<open>Train/Test Splitter: \<^verbatim>\<open>split_data\<close>\<close>

text \<open>
  sklearn's \<^verbatim>\<open>train_test_split(X, Y, train_size=train_size, shuffle=False)\<close> with a float
  \<open>train_size\<close>: the first \<open>floor(train_size * n)\<close> rows train, the rest test.
\<close>

record ('a, 'b) train_test =
  x_train :: "'a list"
  x_test :: "'a list"
  y_train :: "'b list"
  y_test :: "'b list"

definition train_test_split ::
  "'a list \<Rightarrow> 'b list \<Rightarrow> real \<Rightarrow> py_error + ('a, 'b) train_test" where
  "train_test_split X Y train_size =
     (if length X \<noteq> length Y then Inl ValueError
      else if train_size \<le> 0 then Inl ValueError
      else if 1 \<le> train_size then Inl ValueError
      else (let n_train = nat \<lfloor>train_size * real (length X)\<rfloor>
            in if n_train = 0 then Inl ValueError
               else Inr \<lparr> x_train = take n_train X, x_test = drop n_train X,
                          y_train = take n_train Y, y_test = drop n_train Y \<rparr>))"

definition split_data ::
  "'a list list list \<Rightarrow> 'b list list list \<Rightarrow> real
    \<Rightarrow> py_error + ('a, 'b) train_test list list" where
  "split_data scaled_features_all_stocks scaled_target_all_stocks train_size =
     traverse (\<lambda>i. traverse (\<lambda>j.
         (case py_index (scaled_target_all_stocks ! i) j of
            Inl e \<Rightarrow> Inl e
          | Inr Y \<Rightarrow> train_test_split (scaled_features_all_stocks ! i ! j) Y train_size))
         [0 ..< length (scaled_features_all_stocks ! i)])
       [0 ..< length scaled_features_all_stocks]"

text \<open>
  The cell after \<open>split_data\<close> windows both halves of every split with lookback 10:
  \<^verbatim>\<open>
  tt[0], tt[2] = format_dataset(tt[0], tt[2], 10)
  tt[1], tt[3] = format_dataset(tt[1], tt[3], 10)
  \<close>
\<close>

definition format_train_test ::
  "('a, 'b) train_test \<Rightarrow> py_error + ('a list, 'b) train_test" where
  "format_train_test tt =
     (case format_dataset (x_train tt) (y_train tt) 10 of
        Inl e \<Rightarrow> Inl e
      | Inr (X0, Y0) \<Rightarrow>
         (case format_dataset (x_test tt) (y_test tt) 10 of
            Inl e \<Rightarrow> Inl e
          | Inr (X1, Y1) \<Rightarrow>
              Inr \<lparr> x_train = X0, x_test = X1, y_train = Y0, y_test = Y1 \<rparr>))"

section \<open>Indicator Engine: \<^verbatim>\<open>calc_technical_indicators\<close>\<close>

text \<open>
  pandas' \<^verbatim>\<open>rolling(w)\<close> has \<open>min_periods = w\<close>: row \<open>t\<close> is defined once \<open>w\<close> rows end at
  \<open>t\<close>; the mean needs one observation at least and the sample standard deviation
  (\<open>ddof = 1\<close>) two.
\<close>

definition rolling_window :: "nat \<Rightarrow> real list \<Rightarrow> nat \<Rightarrow> real list" where
  "rolling_window w xs t = py_slice xs (t + 1 - w) (t + 1)"

definition mean :: "real list \<Rightarrow> real" where
  "mean xs = sum_list xs / real (length xs)"

definition sample_std :: "real list \<Rightarrow> real" where
  "sample_std xs = sqrt (sum_list (map (\<lambda>x. (x - mean xs)\<^sup>2) xs) / real (length xs - 1))"

definition rolling_mean :: "nat \<Rightarrow> real list \<Rightarrow> fval list" where
  "rolling_mean w xs =
     map (\<lambda>t. if 0 < w \<and> w \<le> t + 1 then Fin (mean (rolling_window w xs t)) else NaN)
       [0 ..< length xs]"

definition rolling_std :: "nat \<Rightarrow> real list \<Rightarrow> fval list" where
  "rolling_std w xs =
     map (\<lambda>t. if 1 < w \<and> w \<le> t + 1 then Fin (sample_std (rolling_window w xs t)) else NaN)
       [0 ..< length xs]"

text \<open>\<^verbatim>\<open>series.shift(w)\<close> for \<open>w \<ge> 0\<close>, and \<^verbatim>\<open>series.clip(lower=lo)\<close>, \<^verbatim>\<open>series.clip(upper=hi)\<close>,
  which leave NaN in place.\<close>

definition shift :: "nat \<Rightarrow> fval list \<Rightarrow> fval list" where
  "shift w xs = replicate (min w (length xs)) NaN @ take (length xs - w) xs"

fun clip_lower :: "real \<Rightarrow> fval \<Rightarrow> fval" where
  "clip_lower lo (Fin a) = Fin (max a lo)"
| "clip_lower lo PInf = PInf"
| "clip_lower lo NInf = Fin lo"
| "clip_lower lo NaN = NaN"

fun clip_upper :: "real \<Rightarrow> fval \<Rightarrow> fval" where
  "clip_upper hi (Fin a) = Fin (min a hi)"
| "clip_upper hi PInf = Fin hi"
| "clip_upper hi NInf = NInf"
| "clip_upper hi NaN = NaN"

text \<open>
  pandas' \<^verbatim>\<open>ewm(com=c, adjust=a).mean()\<close> (\<open>ignore_na = False\<close>, \<open>min_periods = 0\<close>), as its
  one-pass loop computes it: \<open>alpha = 1 / (1 + com)\<close>, the running average \<open>weighted\<close> starts
  at the first value, a NaN input leaves it in place and ages the old weight, and an
  output is NaN until one observation has been seen.
\<close>

record ewm_state =
  weighted :: fval
  old_wt :: real
  nobs :: nat

definition ewm_step :: "bool \<Rightarrow> real \<Rightarrow> ewm_state \<Rightarrow> fval \<Rightarrow> ewm_state" where
  "ewm_step adjust alpha st cur =
     (let is_observation = (\<not> isnan cur);
          nobs' = nobs st + (if is_observation then 1 else 0);
          new_wt = (if adjust then 1 else alpha)
      in if \<not> isnan (weighted st) then
           (let old_wt1 = old_wt st * (1 - alpha)
            in if is_observation then
                 \<lparr> weighted =
                     (if weighted st = cur then weighted st
                      else fdiv (fadd (fmul (Fin old_wt1) (weighted st)) (fmul (Fin new_wt) cur))
                                (Fin (old_wt1 + new_wt))),
                   old_wt = (if adjust then old_wt1 + new_wt else 1),
                   nobs = nobs' \<rparr>
               else \<lparr> weighted = weighted st, old_wt = old_wt1, nobs = nobs' \<rparr>)
         else if is_observation then \<lparr> weighted = cur, old_wt = old_wt st, nobs = nobs' \<rparr>
         else \<lparr> weighted = weighted st, old_wt = old_wt st, nobs = nobs' \<rparr>)"

definition ewm_output :: "ewm_state \<Rightarrow> fval" where
  "ewm_output st = (if 1 \<le> nobs st then weighted st else NaN)"

fun ewm_loop :: "bool \<Rightarrow> real \<Rightarrow> ewm_state \<Rightarrow> fval list \<Rightarrow> fval list" where
  "ewm_loop adjust alpha st [] = []"
| "ewm_loop adjust alpha st (cur # rest) =
     ewm_output (ewm_step adjust alpha st cur)
       # ewm_loop adjust alpha (ewm_step adjust alpha st cur) rest"

definition ewm_mean :: "real \<Rightarrow> bool \<Rightarrow> fval list \<Rightarrow> fval list" where
  "ewm_mean com adjust vals =
     (case vals of
        [] \<Rightarrow> []
      | v # rest \<Rightarrow>
          ewm_output \<lparr> weighted = v, old_wt = 1, nobs = (if isnan v then 0 else 1) \<rparr>
            # ewm_loop adjust (1 / (1 + com))
                \<lparr> weighted = v, old_wt = 1, nobs = (if isnan v then 0 else 1) \<rparr> rest)"

definition com_of_span :: "real \<Rightarrow> real" where
  "com_of_span sp = (sp - 1) / 2"

text \<open>
  The RSI block:
  \<^verbatim>\<open>
  delta = frame['Open'].diff()
  up = delta.clip(lower=0)
  down = -1*delta.clip(upper=0)
  ema_up = up.ewm(com=14, adjust=False).mean()
  ema_down = down.ewm(com=14, adjust=False).mean()
  rs = ema_up/ema_down
  frame['RSI'] = (100 - (100/(1 + rs)))
  \<close>
\<close>

definition ema_up :: "real list \<Rightarrow> fval list" where
  "ema_up opens = ewm_mean 14 False (map (clip_lower 0) (diff (map Fin opens)))"

definition ema_down :: "real list \<Rightarrow> fval list" where
  "ema_down opens =
     ewm_mean 14 False (map (\<lambda>d. fmul (Fin (- 1)) (clip_upper 0 d)) (diff (map Fin opens)))"

definition rsi_of :: "fval \<Rightarrow> fval \<Rightarrow> fval" where
  "rsi_of up_ema down_ema = fsub (Fin 100) (fdiv (Fin 100) (fadd (Fin 1) (fdiv up_ema down_ema)))"

definition rsi :: "real list \<Rightarrow> fval list" where
  "rsi opens = map2 rsi_of (ema_up opens) (ema_down opens)"

definition macd :: "real list \<Rightarrow> fval list" where
  "macd opens =
     map2 fsub (ewm_mean (com_of_span 12) True (map Fin opens))
               (ewm_mean (com_of_span 26) True (map Fin opens))"

definition momentum :: "nat \<Rightarrow> real list \<Rightarrow> fval list" where
  "momentum w opens = map2 fsub (map Fin opens) (shift w (map Fin opens))"

text \<open>Python's \<^verbatim>\<open>f"Vol_{n}"\<close> needs the decimal digits of \<open>n\<close>.\<close>

definition digit_char :: "nat \<Rightarrow> char" where
  "digit_char d = ''0123456789'' ! d"

function str_nat :: "nat \<Rightarrow> string" where
  "str_nat n = (if n < 10 then [digit_char n] else str_nat (n div 10) @ [digit_char (n mod 10)])"
  by pat_completeness auto
termination
  by (relation "measure id") auto

declare str_nat.simps [simp del]

text \<open>\<^verbatim>\<open>frame[name] = col\<close> replaces the column of that name or appends a new one;
  \<^verbatim>\<open>frame.insert(loc, name, col)\<close> puts a new column at position \<open>loc\<close>.\<close>

definition set_column :: "'a dataframe \<Rightarrow> string \<Rightarrow> 'a list \<Rightarrow> 'a dataframe" where
  "set_column df name col =
     (if name \<in> set (columns df) then map (\<lambda>c. if fst c = name then (name, col) else c) df
      else df @ [(name, col)])"

definition insert_column :: "'a dataframe \<Rightarrow> nat \<Rightarrow> string \<Rightarrow> 'a list \<Rightarrow> 'a dataframe" where
  "insert_column df loc name col = take loc df @ [(name, col)] @ drop loc df"

text \<open>
  The body of the loop of \<open>calc_technical_indicators\<close> for one frame of finite prices:
  the five indicator columns are computed from the Open column, rows with a NaN are
  dropped, and Close is moved behind the last column (the position
  \<open>len(columns) - 1\<close> is computed before \<open>pop\<close> removes Close).
\<close>

definition calc_technical_indicators_frame ::
  "real dataframe \<Rightarrow> nat \<Rightarrow> nat \<Rightarrow> nat \<Rightarrow> py_error + fval dataframe" where
  "calc_technical_indicators_frame frame volatility_window momentum_window ma_window =
     (case map_of frame ''Open'' of
        None \<Rightarrow> Inl (KeyError ''Open'')
      | Some opens \<Rightarrow>
         (let f0 = map (\<lambda>c. (fst c, map Fin (snd c))) frame;
              f1 = set_column f0 (''Vol_'' @ str_nat volatility_window)
                     (rolling_std volatility_window opens);
              f2 = set_column f1 ''RSI'' (rsi opens);
              f3 = set_column f2 ''MACD'' (macd opens);
              f4 = set_column f3 (''Mom_'' @ str_nat momentum_window)
                     (momentum momentum_window opens);
              f5 = set_column f4 (''MA_'' @ str_nat ma_window) (rolling_mean ma_window opens);
              f6 = dropna f5
          in case map_of f6 ''Close'' of
               None \<Rightarrow> Inl (KeyError ''Close'')
             | Some close \<Rightarrow>
                 Inr (insert_column (filter (\<lambda>c. fst c \<noteq> ''Close'') f6)
                        (length f6 - 1) ''Close'' close)))"

definition calc_technical_indicators ::
  "real dataframe list \<Rightarrow> nat \<Rightarrow> nat \<Rightarrow> nat \<Rightarrow> py_error + fval dataframe list" where
  "calc_technical_indicators hist_data_all_stocks volatility_window momentum_window ma_window =
     traverse (\<lambda>frame. calc_technical_indicators_frame frame
                          volatility_window momentum_window ma_window)
       hist_data_all_stocks"

section \<open>Stationarity Check: \<^verbatim>\<open>test_stationary\<close>\<close>

text \<open>
  \<^verbatim>\<open>
  statistic, p_value, n_lags, critical_values = kpss(data)
  for key, value in critical_values.items():
      if p_value < significance:
          return False
      else:
          return True
  \<close>
  \<open>kpss\<close> is a global name that Python looks up when the call runs; a name no cell has
  bound raises NameError.  The function takes the names bound so far and the library
  routine a binding of \<open>kpss\<close> would stand for.  A loop over no critical value falls through
  and returns \<open>None\<close>.
\<close>

record kpss_result =
  statistic :: real
  p_value :: real
  n_lags :: nat
  critical_values :: "(string \<times> real) list"

definition test_stationary ::
  "string list \<Rightarrow> (fval list \<Rightarrow> py_error + kpss_result) \<Rightarrow> fval list \<Rightarrow> real
    \<Rightarrow> py_error + bool option" where
  "test_stationary bound_names kpss data significance =
     (if ''kpss'' \<in> set bound_names then
        (case kpss data of
           Inl e \<Rightarrow> Inl e
         | Inr r \<Rightarrow>
            (case critical_values r of
               [] \<Rightarrow> Inr None
             | _ # _ \<Rightarrow> Inr (Some (\<not> p_value r < significance))))
      else Inl (NameError ''kpss''))"

text \<open>
  The names the notebook has bound when the stationarity cell runs: those of the import
  cell, the functions defined and the variables assigned in the cells before it.
\<close>

definition notebook_names :: "string list" where
  "notebook_names =
     [''np'', ''pd'', ''os'', ''plt'', ''yfinance'', ''datetime'', ''time'', ''itertools'',
      ''MinMaxScaler'', ''train_test_split'', ''Sequential'', ''load_model'', ''Dense'',
      ''Flatten'', ''Conv1D'', ''MaxPooling1D'', ''mean_absolute_error'',
      ''get_historical_stock_data'', ''tickers'', ''start_date'', ''end_date'',
      ''hist_data_all_stocks'', ''calc_technical_indicators'',
      ''hist_data_all_stocks_non_stationary'', ''i'', ''make_stationary'',
      ''hist_data_all_stocks_stationary'', ''test_stationary'']"

text \<open>
  The cell that runs the check:
  \<^verbatim>\<open>
  for i in range(len(stationary)):
      for j in range(len(stationary[i].columns)):
          if test_stationary(stationary[i][stationary[i].columns[j]]) != True:
              print(f"{tickers[i]} {stationary[i].columns[j]} not stationary")
  \<close>
  It returns the printed lines, or the exception that ends the run.
\<close>

definition stationarity_cell ::
  "string list \<Rightarrow> (fval list \<Rightarrow> py_error + kpss_result) \<Rightarrow> string list \<Rightarrow> fval dataframe list
    \<Rightarrow> py_error + string list" where
  "stationarity_cell bound_names kpss tickers frames =
     (case traverse (\<lambda>i. traverse (\<lambda>j.
               (case test_stationary bound_names kpss (snd (frames ! i ! j)) (5 / 100) of
                  Inl e \<Rightarrow> Inl e
                | Inr (Some True) \<Rightarrow> Inr []
                | Inr _ \<Rightarrow>
                   (case py_index tickers i of
                      Inl e \<Rightarrow> Inl e
                    | Inr ticker \<Rightarrow>
                        Inr [ticker @ '' '' @ fst (frames ! i ! j) @ '' not stationary''])))
               [0 ..< length (frames ! i)])
             [0 ..< length frames] of
        Inl e \<Rightarrow> Inl e
      | Inr printed \<Rightarrow> Inr (concat (concat printed)))"

section \<open>Data Acquisition: \<^verbatim>\<open>get_historical_stock_data\<close>\<close>

text \<open>
  \<^verbatim>\<open>
  hist_data_all_stocks = []
  for ticker in tickers:
      try:
          hist_data_all_stocks.append(yfinance.Ticker(ticker=ticker).history(...))
          hist_data_all_stocks[-1] = hist_data_all_stocks[-1].drop(
              ["High","Low","Volume","Dividends","Stock Splits"], axis=1)
      except:
          tickers.remove(ticker)
          print(f"Error with ticker {ticker}! REMOVED it!")
  return hist_data_all_stocks
  \<close>
  \<open>history\<close> is the provider.  Python's list iterator keeps a position \<open>i\<close> into the list
  it walks and stops when \<open>i\<close> reaches the list's current length, so the loop is a
  recursion on \<open>i\<close> and the (mutated) ticker list.  The result is the final ticker list,
  the returned frames and the printed lines.
\<close>

definition drop_columns :: "string list \<Rightarrow> 'a dataframe \<Rightarrow> py_error + 'a dataframe" where
  "drop_columns labels df =
     (case filter (\<lambda>l. l \<notin> set (columns df)) labels of
        [] \<Rightarrow> Inr (filter (\<lambda>c. fst c \<notin> set labels) df)
      | l # _ \<Rightarrow> Inl (KeyError l))"

function get_historical_stock_data_loop ::
  "(string \<Rightarrow> py_error + real dataframe) \<Rightarrow> nat \<Rightarrow> string list \<Rightarrow> real dataframe list
    \<Rightarrow> string list \<Rightarrow> string list \<times> real dataframe list \<times> string list" where
  "get_historical_stock_data_loop history i tickers hist_data_all_stocks printed =
     (if i < length tickers then
        (case history (tickers ! i) of
           Inl e \<Rightarrow>
             get_historical_stock_data_loop history (i + 1) (remove1 (tickers ! i) tickers)
               hist_data_all_stocks
               (printed @ [''Error with ticker '' @ tickers ! i @ ''! REMOVED it!''])
         | Inr frame \<Rightarrow>
            (case drop_columns [''High'', ''Low'', ''Volume'', ''Dividends'', ''Stock Splits'']
                    frame of
               Inl e \<Rightarrow>
                 get_historical_stock_data_loop history (i + 1) (remove1 (tickers ! i) tickers)
                   (hist_data_all_stocks @ [frame])
                   (printed @ [''Error with ticker '' @ tickers ! i @ ''! REMOVED it!''])
             | Inr dropped \<Rightarrow>
                 get_historical_stock_data_loop history (i + 1) tickers
                   (hist_data_all_stocks @ [dropped]) printed))
      else (tickers, hist_data_all_stocks, printed))"
  by pat_completeness auto
termination
  by (relation "measure (\<lambda>(history, i, tickers, out, printed). length tickers - i)")
     (auto simp: length_remove1)

declare get_historical_stock_data_loop.simps [simp del]

definition get_historical_stock_data ::
  "(string \<Rightarrow> py_error + real dataframe) \<Rightarrow> string list
    \<Rightarrow> string list \<times> real dataframe list \<times> string list" where
  "get_historical_stock_data history tickers =
     get_historical_stock_data_loop history 0 tickers [] []"

section \<open>From the scaled frame to the held-out targets\<close>

text \<open>
  The path of the target column of one \<open>(stock, subset)\<close> through the cells between
  \<open>scale_values\<close> and the Evaluator: scale the frame, split with the default
  \<open>train_size = 0.8\<close>, window both halves with lookback 10, and in the Evaluator
  \<^verbatim>\<open>y_test_rescaled = target_scaler.inverse_transform(tt[3])\<close>.
  The result has one row of one number per test sample; the rows are flattened.
\<close>

definition y_test_rescaled_of :: "real dataframe \<Rightarrow> py_error + real list" where
  "y_test_rescaled_of frame =
     (case scale_frame frame of
        Inl e \<Rightarrow> Inl e
      | Inr sc \<Rightarrow>
         (case train_test_split (scaled_features sc) (scaled_target sc) (8 / 10) of
            Inl e \<Rightarrow> Inl e
          | Inr tt \<Rightarrow>
             (case format_train_test tt of
                Inl e \<Rightarrow> Inl e
              | Inr windows \<Rightarrow>
                 (case inverse_transform (target_scaler sc) (y_test windows) of
                    Inl e \<Rightarrow> Inl e
                  | Inr Y \<Rightarrow> Inr (concat Y)))))"

text \<open>A series of 52 rows for the examples: Open is \<open>0, 1, 2, ...\<close> and Close the squares.\<close>

definition example_open :: "real list" where
  "example_open = map real [0 ..< 52]"

definition example_close :: "real list" where
  "example_close = map (\<lambda>i. real (i * i)) [0 ..< 52]"

section \<open>Notions of the specification\<close>

text \<open>A frame of finite numbers as a pandas frame, and the first differences
  \<open>row[t] - row[t - 1]\<close> of a column, for \<open>t \<ge> 1\<close>.\<close>

definition finite_frame :: "real dataframe \<Rightarrow> fval dataframe" where
  "finite_frame rf = map (\<lambda>c. (fst c, map Fin (snd c))) rf"

definition first_differences :: "real list \<Rightarrow> real list" where
  "first_differences c = map (\<lambda>t. c ! t - c ! (t - 1)) [1 ..< length c]"

section \<open>The Window Formatter produces the windows \<open>[i - L, i)\<close>\<close>

lemma format_dataset_loop_run:
  "\<forall>i\<in>set idx. i < length y \<Longrightarrow>
   format_dataset_loop x y L idx dX dY =
     Inr (dX @ map (\<lambda>i. py_slice x (i - L) i) idx, dY @ map ((!) y) idx)"
  by (induction idx arbitrary: dX dY) (simp_all add: py_index_def)

lemma py_slice_rows:
  "i \<le> length x \<Longrightarrow> py_slice x (i - L) i = map ((!) x) [i - L ..< i]"
  unfolding py_slice_def
  by (simp add: list_eq_iff_nth_eq)

text \<open>
  C6.  For features and targets of common length \<open>N\<close> and a window length \<open>L\<close>,
  \<open>format_dataset\<close> returns one sample for each \<open>i\<close> in \<open>[L, N)\<close>, in order: its input is
  the feature rows \<open>[i - L, i)\<close> and its label the target row \<open>i\<close>.  There are \<open>N - L\<close>
  samples, and none when \<open>L \<ge> N\<close>.
\<close>

theorem format_dataset_windows:
  assumes "length x_values = N" and "length y_values = N"
  shows "format_dataset x_values y_values L =
           Inr (map (\<lambda>i. map ((!) x_values) [i - L ..< i]) [L ..< N],
                map ((!) y_values) [L ..< N])
         \<and> length [L ..< N] = N - L
         \<and> (N \<le> L \<longrightarrow> format_dataset x_values y_values L = Inr ([], []))"
proof -
  have run: "format_dataset x_values y_values L =
      Inr (map (\<lambda>i. py_slice x_values (i - L) i) [L ..< N], map ((!) y_values) [L ..< N])"
    unfolding format_dataset_def using assms
    by (simp add: format_dataset_loop_run)
  have "map (\<lambda>i. py_slice x_values (i - L) i) [L ..< N]
      = map (\<lambda>i. map ((!) x_values) [i - L ..< i]) [L ..< N]"
    using assms by (intro map_cong refl py_slice_rows) simp
  with run show ?thesis by simp
qed

theorem format_dataset_windows_witness:
  "length [[1], [2], [3], [4::int]] = 4 \<and> length [10, 20, 30, 40::int] = 4
   \<and> format_dataset [[1], [2], [3], [4::int]] [10, 20, 30, 40::int] 2 =
       Inr ([[[1], [2]], [[2], [3]]], [30, 40])
   \<and> format_dataset [[1], [2::int]] [10, 20::int] 2 = Inr ([], [])"
  using format_dataset_windows [of "[[1], [2], [3], [4::int]]" 4 "[10, 20, 30, 40::int]" 2]
        format_dataset_windows [of "[[1], [2::int]]" 2 "[10, 20::int]" 2]
  by (simp add: upt_rec)

section \<open>Directional accuracy counts equal signs\<close>

lemma iloc_from_end:
  "P \<le> length close \<Longrightarrow> k < P \<Longrightarrow>
   iloc close (int (length close) - int P + int k) = Inr (close ! (length close - P + k))"
  unfolding iloc_def Let_def
  by (simp add: nat_add_distrib nat_diff_distrib' of_nat_diff)

lemma evaluation_loop_run:
  assumes "length pred \<le> length close"
    and "\<forall>k\<in>set idx. k < length y \<and> k < length pred"
  shows "evaluation_loop close pred y idx (s, ps, ys) =
     Inr (s + length (filter (\<lambda>k. sgn (pred ! k) = sgn (y ! k)) idx),
          ps @ map (\<lambda>k. close ! (length close - length pred + k) + pred ! k) idx,
          ys @ map (\<lambda>k. close ! (length close - length pred + k) + y ! k) idx)"
  using assms
  by (induction idx arbitrary: s ps ys) (simp_all add: py_index_def iloc_from_end)

lemma filter_zero_signs:
  "length (filter (\<lambda>k. (0::real) = sgn (y ! k)) [0 ..< length y]) = length (filter (\<lambda>v. v = 0) y)"
proof -
  have "filter (\<lambda>v. v = 0) y = filter (\<lambda>v. (0::real) = sgn v) y"
    by (rule filter_cong) (auto simp: sgn_zero_iff)
  also have "\<dots> = filter (\<lambda>v. (0::real) = sgn v) (map ((!) y) [0 ..< length y])"
    by (simp add: map_nth)
  finally show ?thesis
    by (simp add: filter_map comp_def)
qed

text \<open>
  C7, as the code has it.  The directional accuracy is the fraction of samples at which
  \<open>np.sign\<close> of the prediction equals \<open>np.sign\<close> of the held-out value, both taken on the
  differenced, rescaled values.  \<open>np.sign\<close> has three values, so a model that always
  predicts zero change scores the fraction of true deltas that are exactly zero.
\<close>

theorem direction_accuracy_sign_fraction:
  assumes "length y_test_rescaled = length pred_rescaled"
    and "0 < length pred_rescaled"
    and "length pred_rescaled \<le> length close"
  shows "\<exists>r. evaluate close pred_rescaled y_test_rescaled = Inr r
           \<and> y_test_direction_accuracy r =
               real (sign_matches pred_rescaled y_test_rescaled) / real (length pred_rescaled)
           \<and> (list_all (\<lambda>p. p = 0) pred_rescaled \<longrightarrow>
                y_test_direction_accuracy r = fraction_zero y_test_rescaled)"
proof -
  let ?P = "length pred_rescaled"
  have run: "evaluation_loop close pred_rescaled y_test_rescaled [0 ..< ?P] (0, [], []) =
     Inr (sign_matches pred_rescaled y_test_rescaled,
          map (\<lambda>k. close ! (length close - ?P + k) + pred_rescaled ! k) [0 ..< ?P],
          map (\<lambda>k. close ! (length close - ?P + k) + y_test_rescaled ! k) [0 ..< ?P])"
    using assms by (simp add: evaluation_loop_run sign_matches_def)
  have zero: "sign_matches pred_rescaled y_test_rescaled
                = length (filter (\<lambda>v. v = 0) y_test_rescaled)"
    if "list_all (\<lambda>p. p = 0) pred_rescaled"
  proof -
    have "filter (\<lambda>k. sgn (pred_rescaled ! k) = sgn (y_test_rescaled ! k)) [0 ..< ?P]
        = filter (\<lambda>k. 0 = sgn (y_test_rescaled ! k)) [0 ..< ?P]"
      using that by (intro filter_cong refl) (simp add: list_all_length)
    then show ?thesis
      using assms(1) filter_zero_signs [of y_test_rescaled] by (simp add: sign_matches_def)
  qed
  show ?thesis
    using run assms zero by (simp add: evaluate_def fraction_zero_def)
qed

theorem direction_accuracy_sign_fraction_witness:
  "length [1, 0, - 2 :: real] = length [0, 0, 0 :: real] \<and> 0 < length [0, 0, 0 :: real]
   \<and> length [0, 0, 0 :: real] \<le> length [10, 11, 12, 13 :: real]
   \<and> list_all (\<lambda>p. p = 0) [0, 0, 0 :: real]
   \<and> (\<exists>r. evaluate [10, 11, 12, 13] [0, 0, 0] [1, 0, - 2] = Inr r
          \<and> y_test_direction_accuracy r = 1 / 3)"
  using direction_accuracy_sign_fraction [of "[1, 0, - 2]" "[0, 0, 0]" "[10, 11, 12, 13]"]
  by (auto simp: fraction_zero_def)

text \<open>
  The always-zero predictor on the true deltas \<open>[1, 0]\<close>: both deltas are non-negative, but
  only the second has the sign of the prediction, so the accuracy is one half.
\<close>

theorem zero_prediction_accuracy_counterexample:
  "evaluate [10, 11, 12] [0, 0] [1, 0] =
     Inr \<lparr> y_test_direction_accuracy = 1 / 2,
           pred_rescaled_inversed_difference = [11, 12],
           y_test_rescaled_inversed_difference = [12, 12] \<rparr>
   \<and> fraction_non_negative [1, 0] = 1"
  by (simp add: evaluate_def py_index_def iloc_def fraction_non_negative_def upt_rec)

section \<open>The Evaluator adds the differenced value onto the level of the same row\<close>

lemma example_close_rows:
  "example_close = [0,1,4,9,16,25,36,49,64,81,100,121,144,169,196,225,256,289,324,361,400,441,
     484,529,576,625,676,729,784,841,900,961,1024,1089,1156,1225,1296,1369,1444,1521,1600,
     1681,1764,1849,1936,2025,2116,2209,2304,2401,2500,2601]"
  unfolding example_close_def by (simp add: upt_rec)

lemma example_open_rows:
  "example_open = [0,1,2,3,4,5,6,7,8,9,10,11,12,13,14,15,16,17,18,19,20,21,22,23,24,25,26,27,
     28,29,30,31,32,33,34,35,36,37,38,39,40,41,42,43,44,45,46,47,48,49,50,51]"
  unfolding example_open_def by (simp add: upt_rec)

lemma example_stationary:
  "make_stationary_frame [(''Open'', map Fin example_open), (''Close'', map Fin example_close)] =
     [(''Open'', map Fin (replicate 51 1)),
      (''Close'', map Fin (map (\<lambda>i. real (2 * i + 1)) [0 ..< 51]))]"
  unfolding example_open_rows example_close_rows
  by (simp add: make_stationary_frame_def dropna_def diff_def fsub_def num_rows_def isnan_def
      upt_rec eval_nat_numeral)

lemma example_y_test_rescaled:
  "y_test_rescaled_of [(''Open'', replicate 51 1),
                       (''Close'', map (\<lambda>i. real (2 * i + 1)) [0 ..< 51])] = Inr [101]"
  by (simp add: y_test_rescaled_of_def scale_frame_def fit_transform_def fit_def transform_def
      inverse_transform_def to_numpy_def num_rows_def train_test_split_def format_train_test_def
      format_dataset_def py_index_def py_slice_def scale_of_def min_of_def
      handle_zeros_in_scale_def upt_rec eval_nat_numeral)

text \<open>
  C1, at a series of 52 rows whose Close is \<open>0, 1, 4, ..., 2500, 2601\<close>.  The stationary
  Close column is \<open>1, 3, ..., 101\<close>; the 0.8 split and the lookback of 10 leave one test
  sample, the last difference \<open>101 = 2601 - 2500\<close>, which is the step from row 50 to row
  51.  The Evaluator adds it onto \<open>Close.iloc[52 - 1 + 0]\<close>, the level of row 51 itself,
  and reports 2702 as the true price; the level of the preceding row, 2500, would give the
  original 2601.
\<close>

theorem reconstruction_adds_same_row_level:
  "make_stationary_frame [(''Open'', map Fin example_open), (''Close'', map Fin example_close)] =
     [(''Open'', map Fin (replicate 51 1)),
      (''Close'', map Fin (map (\<lambda>i. real (2 * i + 1)) [0 ..< 51]))]
   \<and> y_test_rescaled_of [(''Open'', replicate 51 1),
                          (''Close'', map (\<lambda>i. real (2 * i + 1)) [0 ..< 51])] = Inr [101]
   \<and> evaluate example_close [100] [101] =
       Inr \<lparr> y_test_direction_accuracy = 1,
             pred_rescaled_inversed_difference = [2701],
             y_test_rescaled_inversed_difference = [2702] \<rparr>
   \<and> example_close ! 51 = 2601
   \<and> example_close ! 50 + 101 = 2601"
proof -
  have "evaluate example_close [100] [101] =
       Inr \<lparr> y_test_direction_accuracy = 1,
             pred_rescaled_inversed_difference = [2701],
             y_test_rescaled_inversed_difference = [2702] \<rparr>"
    unfolding example_close_rows by (simp add: evaluate_def py_index_def iloc_def)
  moreover have "example_close ! 51 = 2601" "example_close ! 50 + 101 = 2601"
    unfolding example_close_rows by simp_all
  ultimately show ?thesis
    using example_stationary example_y_test_rescaled by simp
qed

end
